theory Spec2Isabelle
  imports Complex_Main
begin

section \<open>Scalars, vectors and lanes\<close>

text \<open>
  The class \<^verbatim>\<open>Scene<Float, Spectrum>\<close> of \<^verbatim>\<open>src/librender/scene.cpp\<close> is a
  template over the arithmetic type \<^verbatim>\<open>Float\<close> and the colour type \<^verbatim>\<open>Spectrum\<close>.
  \<^item> A scalar \<^verbatim>\<open>Float\<close> is a real number here: arithmetic is exact, rounding is not
    represented.
  \<^item> An array of lanes (a packet or a CUDA array) is a function from the lane number
    to the value of that lane; the number of lanes is \<open>PacketSize\<close> of the variant.
  \<^item> A \<^verbatim>\<open>Spectrum\<close> value of one lane is an element of a real vector space \<open>'s\<close>
    (zero, scaling by a \<^verbatim>\<open>Float\<close>).
\<close>

type_synonym ScalarFloat = real
type_synonym Point2f = "real \<times> real"
type_synonym Point3f = "real \<times> real \<times> real"
type_synonym Vector3f = "real \<times> real \<times> real"
type_synonym 'a lanes = "nat \<Rightarrow> 'a"
type_synonym Mask = "bool lanes"

definition vx :: "Point3f \<Rightarrow> real" where "vx v = fst v"
definition vy :: "Point3f \<Rightarrow> real" where "vy v = fst (snd v)"
definition vz :: "Point3f \<Rightarrow> real" where "vz v = snd (snd v)"

definition hmax :: "Vector3f \<Rightarrow> real" where
  "hmax v = max (vx v) (max (vy v) (vz v))"

definition vabs :: "Vector3f \<Rightarrow> Vector3f" where
  "vabs v = (\<bar>vx v\<bar>, \<bar>vy v\<bar>, \<bar>vz v\<bar>)"

definition rcp :: "real \<Rightarrow> real" where
  "rcp x = 1 / x"

text \<open>
  The build and template configuration: the preprocessor symbol \<^verbatim>\<open>MTS_USE_EMBREE\<close>
  (which of \<^verbatim>\<open>scene_embree.inl\<close> and \<^verbatim>\<open>scene_native.inl\<close> provides the CPU
  functions), the trait \<^verbatim>\<open>is_cuda_array_v<Float>\<close>, the number of lanes, and the two
  constants \<^verbatim>\<open>math::Epsilon<Float>\<close> and \<^verbatim>\<open>math::ShadowEpsilon<Float>\<close>, whose values
  are declared outside this file and are parameters here.
\<close>

record Variant =
  MTS_USE_EMBREE :: bool
  is_cuda_array :: bool
  PacketSize :: nat
  Epsilon :: real
  ShadowEpsilon :: real

text \<open>The three acceleration backends of the spec, as the configuration selects them:
  the constructor calls \<^verbatim>\<open>accel_init_gpu\<close> on a CUDA variant and \<^verbatim>\<open>accel_init_cpu\<close>
  otherwise, and the latter is Embree's when \<^verbatim>\<open>MTS_USE_EMBREE\<close> is defined.\<close>

datatype BackendKind = SoftwareStructure | HardwareBVH | GPUBackend

definition backend_kind :: "'x Variant_scheme \<Rightarrow> BackendKind" where
  "backend_kind v =
     (if is_cuda_array v then GPUBackend
      else if MTS_USE_EMBREE v then HardwareBVH
      else SoftwareStructure)"

text \<open>\<^verbatim>\<open>enoki::any\<close> over the lanes of a mask, and \<^verbatim>\<open>enoki::any_or<true>\<close>, which
  cannot look into a CUDA array and answers \<^verbatim>\<open>true\<close> there.\<close>

definition any_lanes :: "'x Variant_scheme \<Rightarrow> Mask \<Rightarrow> bool" where
  "any_lanes v m = list_ex m [0 ..< PacketSize v]"

definition any_or_true :: "'x Variant_scheme \<Rightarrow> Mask \<Rightarrow> bool" where
  "any_or_true v m = (if is_cuda_array v then True else any_lanes v m)"

section \<open>Errors\<close>

text \<open>\<^verbatim>\<open>Throw(msg)\<close> raises an exception carrying the message;
  \<^verbatim>\<open>NotImplementedError(name)\<close> raises the "not implemented" exception for the
  named function. \<open>BackendUnavailable\<close> is the failure of a backend's initialisation.\<close>

datatype error =
    Exception string
  | NotImplemented string
  | BackendUnavailable

section \<open>Bounding box\<close>

text \<open>
  Modelled from the spec: the class \<^verbatim>\<open>BoundingBox3f\<close> (\<^verbatim>\<open>mitsuba/core/bbox.h\<close>, not
  under src/): an axis-aligned box that is lazily expanded and has a validity flag. The
  box nothing has been put into is \<open>EmptyBox\<close>; it is not valid.
\<close>

datatype BoundingBox3f = EmptyBox | Box Point3f Point3f

text \<open>
  Modelled from the spec: the members \<^verbatim>\<open>valid()\<close>, \<^verbatim>\<open>min\<close>, \<^verbatim>\<open>center()\<close>,
  \<^verbatim>\<open>extents()\<close> and \<^verbatim>\<open>expand()\<close> of the box. The constructor reads the minimum,
  the centre and the extents of a valid box only.
\<close>

fun bbox_valid :: "BoundingBox3f \<Rightarrow> bool" where
  "bbox_valid EmptyBox = False"
| "bbox_valid (Box mn mx) = (vx mn \<le> vx mx \<and> vy mn \<le> vy mx \<and> vz mn \<le> vz mx)"

fun bbox_min :: "BoundingBox3f \<Rightarrow> Point3f" where
  "bbox_min EmptyBox = (0, 0, 0)"
| "bbox_min (Box mn mx) = mn"

fun bbox_center :: "BoundingBox3f \<Rightarrow> Point3f" where
  "bbox_center EmptyBox = (0, 0, 0)"
| "bbox_center (Box mn mx) =
     ((vx mn + vx mx) / 2, (vy mn + vy mx) / 2, (vz mn + vz mx) / 2)"

fun bbox_extents :: "BoundingBox3f \<Rightarrow> Vector3f" where
  "bbox_extents EmptyBox = (0, 0, 0)"
| "bbox_extents (Box mn mx) = (vx mx - vx mn, vy mx - vy mn, vz mx - vz mn)"

fun bbox_expand :: "BoundingBox3f \<Rightarrow> BoundingBox3f \<Rightarrow> BoundingBox3f" where
  "bbox_expand EmptyBox b = b"
| "bbox_expand a EmptyBox = a"
| "bbox_expand (Box mn mx) (Box mn' mx') =
     Box (min (vx mn) (vx mn'), min (vy mn) (vy mn'), min (vz mn) (vz mn'))
         (max (vx mx) (vx mx'), max (vy mx) (vy mx'), max (vz mx) (vz mx'))"

section \<open>Properties and plugin objects\<close>

text \<open>
  \<^verbatim>\<open>Properties\<close> as the constructor uses it: the plugin name given to the
  constructor of \<^verbatim>\<open>Properties\<close>, the values stored by \<^verbatim>\<open>set_float\<close> and those stored
  by \<^verbatim>\<open>set_transform\<close>. The only transform the constructor builds is
  \<^verbatim>\<open>Transform4f::translate(v)\<close>.
\<close>

datatype Transform4f = translate Vector3f

record Properties =
  plugin_name :: string
  floats :: "string \<rightharpoonup> real"
  transforms :: "string \<rightharpoonup> Transform4f"

definition Properties_ctor :: "string \<Rightarrow> Properties" where
  "Properties_ctor name = \<lparr>plugin_name = name, floats = Map.empty, transforms = Map.empty\<rparr>"

definition set_float :: "string \<Rightarrow> real \<Rightarrow> Properties \<Rightarrow> Properties" where
  "set_float k x p = p\<lparr>floats := (floats p)(k \<mapsto> x)\<rparr>"

definition set_transform :: "string \<Rightarrow> Transform4f \<Rightarrow> Properties \<Rightarrow> Properties" where
  "set_transform k t p = p\<lparr>transforms := (transforms p)(k \<mapsto> t)\<rparr>"

text \<open>A sensor or an integrator is the object that
  \<^verbatim>\<open>PluginManager::create_object\<close> makes from a \<^verbatim>\<open>Properties\<close> value; the plugin
  manager is an external collaborator, and the object is identified with the properties
  it was created from.\<close>

datatype Sensor = Sensor Properties
datatype Integrator = Integrator Properties

section \<open>Samples, interactions, rays\<close>

text \<open>
  \<^verbatim>\<open>DirectionSample3f\<close>, one lane of it: the direction \<^verbatim>\<open>d\<close>, the distance
  \<^verbatim>\<open>dist\<close> and the density \<^verbatim>\<open>pdf\<close> that the source reads and writes; the
  remaining (emitter specific) fields play no part in the scene.
\<close>

record DirectionSample3f =
  ds_d :: Vector3f
  ds_dist :: real
  ds_pdf :: real

text \<open>
  Modelled from the spec: the value of a default-constructed \<^verbatim>\<open>DirectionSample3f\<close>
  (its constructor is declared in \<^verbatim>\<open>mitsuba/render/records.h\<close>, not under src/). The
  spec calls it the zero direction sample, with zero pdf.
\<close>

definition DirectionSample3f_default :: DirectionSample3f where
  "DirectionSample3f_default = \<lparr>ds_d = (0, 0, 0), ds_dist = 0, ds_pdf = 0\<rparr>"

record Interaction3f =
  it_p :: Point3f
  it_time :: real
  it_wavelengths :: "real list"

record Ray3f =
  ray_o :: Point3f
  ray_d :: Vector3f
  ray_mint :: real
  ray_maxt :: real
  ray_time :: real
  ray_wavelengths :: "real list"

text \<open>One lane of a \<^verbatim>\<open>SurfaceInteraction3f\<close>: no hit, or the nearest hit with its
  distance along the ray.\<close>

type_synonym SurfaceInteraction3f = "real option"

definition is_valid :: "SurfaceInteraction3f \<Rightarrow> bool" where
  "is_valid si = (si \<noteq> None)"

section \<open>Emitters, shapes, objects\<close>

text \<open>
  An emitter, as the scene uses it: the flag \<^verbatim>\<open>is_environment()\<close> and the method
  \<^verbatim>\<open>sample_direction(ref, sample, active)\<close>, given for one lane (an emitter treats
  each lane on its own).
\<close>

record 's Emitter =
  is_environment :: bool
  sample_direction :: "Interaction3f \<Rightarrow> Point2f \<Rightarrow> bool \<Rightarrow> DirectionSample3f \<times> 's"

text \<open>A shape: \<^verbatim>\<open>is_emitter()\<close> and \<^verbatim>\<open>emitter()\<close> are the embedded emitter, if any,
  \<^verbatim>\<open>is_sensor()\<close> and \<^verbatim>\<open>sensor()\<close> the embedded sensor, \<^verbatim>\<open>bbox()\<close> its box.\<close>

record 's Shape =
  shape_emitter :: "'s Emitter option"
  shape_sensor :: "Sensor option"
  shape_bbox :: BoundingBox3f

text \<open>An object of \<^verbatim>\<open>props.objects()\<close>, by the first \<^verbatim>\<open>dynamic_cast\<close> of the
  constructor's chain that succeeds; \<open>OtherObj\<close> is an object for which none does.\<close>

datatype 's Object =
    ShapeObj "'s Shape"
  | EmitterObj "'s Emitter"
  | SensorObj Sensor
  | IntegratorObj Integrator
  | OtherObj

section \<open>Discrete distribution\<close>

text \<open>
  Modelled from the spec: the class \<^verbatim>\<open>DiscreteDistribution\<close> (not under src/): a
  cumulative-weight table over N items, which supports normalized sampling from a
  uniform random scalar, returning the selected index, the selection probability and the
  reused fractional remainder. The table starts with the entry 0; \<open>append\<close> adds the
  running total; \<open>normalize\<close> divides the table by the total weight.
\<close>

record DiscreteDistribution =
  m_cdf :: "real list"
  m_normalized :: bool

text \<open>
  Modelled from the spec: the operations of \<^verbatim>\<open>DiscreteDistribution\<close> that the scene
  calls. \<open>DiscreteDistribution_ctor n\<close> is the empty table (\<open>n\<close> only reserves room);
  \<open>distr_pmf d i\<close> is the weight of item \<open>i\<close>, the difference of two neighbours of the
  table; \<open>distr_sample d u\<close> is the item whose interval of the table holds \<open>u\<close>, never
  beyond the last item; \<open>sample_reuse_pdf d u\<close> returns the item, its weight and the
  position of \<open>u\<close> within the interval, rescaled to the unit interval. The mask that
  the source passes to \<^verbatim>\<open>sample_reuse_pdf\<close> marks the lanes whose result is used; the
  function is given here for one lane.
\<close>

definition DiscreteDistribution_ctor :: "nat \<Rightarrow> DiscreteDistribution" where
  "DiscreteDistribution_ctor n_entries = \<lparr>m_cdf = [0], m_normalized = False\<rparr>"

definition distr_append :: "real \<Rightarrow> DiscreteDistribution \<Rightarrow> DiscreteDistribution" where
  "distr_append w d = d\<lparr>m_cdf := m_cdf d @ [last (m_cdf d) + w]\<rparr>"

definition distr_normalize :: "DiscreteDistribution \<Rightarrow> DiscreteDistribution" where
  "distr_normalize d =
     (let total = last (m_cdf d) in
      if total > 0
      then d\<lparr>m_cdf := map (\<lambda>c. c * (1 / total)) (m_cdf d), m_normalized := True\<rparr>
      else d)"

definition distr_pmf :: "DiscreteDistribution \<Rightarrow> nat \<Rightarrow> real" where
  "distr_pmf d i = m_cdf d ! (i + 1) - m_cdf d ! i"

definition distr_sample :: "DiscreteDistribution \<Rightarrow> real \<Rightarrow> nat" where
  "distr_sample d u =
     min (length (filter (\<lambda>c. c \<le> u) (tl (m_cdf d)))) (length (m_cdf d) - 2)"

definition sample_reuse_pdf :: "DiscreteDistribution \<Rightarrow> real \<Rightarrow> nat \<times> real \<times> real" where
  "sample_reuse_pdf d u =
     (let index = distr_sample d u; p = distr_pmf d index
      in (index, p, (u - m_cdf d ! index) / p))"

section \<open>The scene and its construction\<close>

text \<open>
  The members of \<^verbatim>\<open>Scene\<close> that the loop over \<^verbatim>\<open>props.objects()\<close> fills in;
  \<open>m_environment\<close> and \<open>m_integrator\<close> are the two pointers, null before the loop.
\<close>

record 's Aggregate =
  m_children :: "'s Object list"
  m_emitters :: "'s Emitter list"
  m_sensors :: "Sensor list"
  m_bbox :: BoundingBox3f
  m_environment :: "'s Emitter option"
  m_integrator :: "Integrator option"

text \<open>The constructed scene has, besides, the emitter distribution and the handle
  \<open>m_accel\<close> of the acceleration structure.\<close>

record ('s, 'acc) Scene = "'s Aggregate" +
  m_emitter_distr :: DiscreteDistribution
  m_accel :: 'acc

text \<open>
  The functions of \<^verbatim>\<open>scene_native.inl\<close>, \<^verbatim>\<open>scene_embree.inl\<close> and
  \<^verbatim>\<open>scene_optix.inl\<close> that \<^verbatim>\<open>scene.cpp\<close> calls. These files are not under src/; the
  functions are parameters of the model. The initialisation of a backend may fail.
\<close>

record ('s, 'acc) Backend =
  accel_init_cpu :: "'s Object list \<Rightarrow> error + 'acc"
  accel_init_gpu :: "'s Object list \<Rightarrow> error + 'acc"
  ray_intersect_cpu :: "'acc \<Rightarrow> Ray3f lanes \<Rightarrow> Mask \<Rightarrow> SurfaceInteraction3f lanes"
  ray_intersect_gpu :: "'acc \<Rightarrow> Ray3f lanes \<Rightarrow> Mask \<Rightarrow> SurfaceInteraction3f lanes"
  ray_intersect_naive_cpu :: "'acc \<Rightarrow> Ray3f lanes \<Rightarrow> Mask \<Rightarrow> SurfaceInteraction3f lanes"
  ray_test_cpu :: "'acc \<Rightarrow> Ray3f lanes \<Rightarrow> Mask \<Rightarrow> Mask"
  ray_test_gpu :: "'acc \<Rightarrow> Ray3f lanes \<Rightarrow> Mask \<Rightarrow> Mask"

definition empty_aggregate :: "'s Aggregate" where
  "empty_aggregate =
     \<lparr>m_children = [], m_emitters = [], m_sensors = [], m_bbox = EmptyBox,
      m_environment = None, m_integrator = None\<rparr>"

text \<open>One iteration of the loop of the constructor (lines 22 to 51): the object is
  appended to the children, then handled by the first role it has. A \<^verbatim>\<open>Throw\<close> ends
  the construction.\<close>

fun add_object :: "'s Aggregate \<Rightarrow> 's Object \<Rightarrow> error + 's Aggregate" where
  "add_object a (ShapeObj shape) =
     (let a = a\<lparr>m_children := m_children a @ [ShapeObj shape]\<rparr>;
          a = (case shape_emitter shape of
                 Some e \<Rightarrow> a\<lparr>m_emitters := m_emitters a @ [e]\<rparr>
               | None \<Rightarrow> a);
          a = (case shape_sensor shape of
                 Some s \<Rightarrow> a\<lparr>m_sensors := m_sensors a @ [s]\<rparr>
               | None \<Rightarrow> a)
      in Inr (a\<lparr>m_bbox := bbox_expand (m_bbox a) (shape_bbox shape)\<rparr>))"
| "add_object a (EmitterObj emitter) =
     (let a = a\<lparr>m_children := m_children a @ [EmitterObj emitter]\<rparr>;
          a = a\<lparr>m_emitters := m_emitters a @ [emitter]\<rparr>
      in if is_environment emitter
         then (if m_environment a \<noteq> None
               then Inl (Exception ''Only one environment emitter can be specified per scene.'')
               else Inr (a\<lparr>m_environment := Some emitter\<rparr>))
         else Inr a)"
| "add_object a (SensorObj sensor) =
     (let a = a\<lparr>m_children := m_children a @ [SensorObj sensor]\<rparr>
      in Inr (a\<lparr>m_sensors := m_sensors a @ [sensor]\<rparr>))"
| "add_object a (IntegratorObj integrator) =
     (let a = a\<lparr>m_children := m_children a @ [IntegratorObj integrator]\<rparr>
      in if m_integrator a \<noteq> None
         then Inl (Exception ''Only one integrator can be specified per scene.'')
         else Inr (a\<lparr>m_integrator := Some integrator\<rparr>))"
| "add_object a OtherObj = Inr (a\<lparr>m_children := m_children a @ [OtherObj]\<rparr>)"

fun add_objects :: "'s Aggregate \<Rightarrow> 's Object list \<Rightarrow> error + 's Aggregate" where
  "add_objects a [] = Inr a"
| "add_objects a (obj # objs) =
     (case add_object a obj of
        Inl e \<Rightarrow> Inl e
      | Inr a' \<Rightarrow> add_objects a' objs)"

text \<open>The properties of the default sensor (lines 55 to 74).\<close>

definition default_sensor_props :: "BoundingBox3f \<Rightarrow> Properties" where
  "default_sensor_props bbox =
     (let sensor_props = Properties_ctor ''perspective'';
          sensor_props = set_float ''fov'' 45 sensor_props
      in if bbox_valid bbox
         then
           (let center = bbox_center bbox;
                extents = bbox_extents bbox;
                distance = hmax extents / (2 * tan (45 * 0.5 * pi / 180));
                sensor_props = set_float ''far_clip'' (hmax extents * 5 + distance) sensor_props;
                sensor_props = set_float ''near_clip'' (distance / 100) sensor_props;
                sensor_props =
                  set_float ''focus_distance'' (distance + vz extents / 2) sensor_props
            in set_transform ''to_world''
                 (translate (vx center, vy center, vz (bbox_min bbox) - distance))
                 sensor_props)
         else sensor_props)"

text \<open>Lines 53 to 84: the default sensor and the default integrator.\<close>

definition add_defaults :: "'s Aggregate \<Rightarrow> 's Aggregate" where
  "add_defaults a =
     (let a = (if m_sensors a = []
               then a\<lparr>m_sensors := m_sensors a @ [Sensor (default_sensor_props (m_bbox a))]\<rparr>
               else a)
      in if m_integrator a = None
         then a\<lparr>m_integrator := Some (Integrator (Properties_ctor ''path''))\<rparr>
         else a)"

text \<open>
  Lines 91 to 96: the distribution over the emitters. \<open>emitter_distr_calls\<close> is the
  sequence of the calls that the constructor makes on the table it has just created, one
  \<^verbatim>\<open>append(1.f)\<close> per emitter and then \<^verbatim>\<open>normalize()\<close> under the test of line 95;
  the distribution of the scene is the new table after these calls.
\<close>

datatype distr_call = Append real | Normalize

fun apply_distr_call :: "distr_call \<Rightarrow> DiscreteDistribution \<Rightarrow> DiscreteDistribution" where
  "apply_distr_call (Append w) d = distr_append w d"
| "apply_distr_call Normalize d = distr_normalize d"

definition emitter_distr_calls :: "nat \<Rightarrow> distr_call list" where
  "emitter_distr_calls n_emitters =
     map (\<lambda>i. Append 1) [0 ..< n_emitters] @ (if n_emitters > 0 then [Normalize] else [])"

definition emitter_distribution :: "nat \<Rightarrow> DiscreteDistribution" where
  "emitter_distribution n_emitters =
     fold apply_distr_call (emitter_distr_calls n_emitters)
       (DiscreteDistribution_ctor n_emitters)"

text \<open>
  The constructor. The warnings it logs are not part of the scene, and the call
  \<^verbatim>\<open>emitter->set_scene(this)\<close> of the last loop is a call into the emitter plugins
  that leaves the members of the scene as they are.
\<close>

definition Scene_ctor ::
  "'x Variant_scheme \<Rightarrow> ('s, 'acc) Backend \<Rightarrow> 's Object list \<Rightarrow> error + ('s, 'acc) Scene"
where
  "Scene_ctor v be objs =
     (case add_objects empty_aggregate objs of
        Inl e \<Rightarrow> Inl e
      | Inr a0 \<Rightarrow>
          (let a = add_defaults a0 in
           case (if is_cuda_array v then accel_init_gpu be objs else accel_init_cpu be objs) of
             Inl e \<Rightarrow> Inl e
           | Inr acc \<Rightarrow>
               Inr \<lparr>m_children = m_children a, m_emitters = m_emitters a,
                    m_sensors = m_sensors a, m_bbox = m_bbox a,
                    m_environment = m_environment a, m_integrator = m_integrator a,
                    m_emitter_distr = emitter_distribution (length (m_emitters a)),
                    m_accel = acc\<rparr>))"

section \<open>Ray queries\<close>


definition ray_intersect_naive ::
  "'x Variant_scheme \<Rightarrow> ('s, 'acc) Backend \<Rightarrow> ('s, 'acc) Scene \<Rightarrow> Ray3f lanes \<Rightarrow> Mask
     \<Rightarrow> error + SurfaceInteraction3f lanes"
where
  "ray_intersect_naive v be sc ray active =
     (if \<not> MTS_USE_EMBREE v
      then (if \<not> is_cuda_array v
            then Inr (ray_intersect_naive_cpu be (m_accel sc) ray active)
            else Inl (NotImplemented ''ray_intersect_naive''))
      else Inl (NotImplemented ''ray_intersect_naive''))"

definition ray_test ::
  "'x Variant_scheme \<Rightarrow> ('s, 'acc) Backend \<Rightarrow> ('s, 'acc) Scene \<Rightarrow> Ray3f lanes \<Rightarrow> Mask \<Rightarrow> Mask"
where
  "ray_test v be sc ray active =
     (if is_cuda_array v
      then ray_test_gpu be (m_accel sc) ray active
      else ray_test_cpu be (m_accel sc) ray active)"

section \<open>Sampling a direction towards an emitter\<close>

text \<open>
  \<^verbatim>\<open>gather<EmitterPtr>(m_emitters.data(), index, active)\<close>: the pointer of a lane that
  is not active is null. An index beyond the array is read out of bounds in the source;
  it is a null pointer here, and \<open>distr_sample\<close> never produces one for the
  distribution that the constructor builds.
\<close>

definition gather :: "'a list \<Rightarrow> nat lanes \<Rightarrow> Mask \<Rightarrow> 'a option lanes" where
  "gather xs index active =
     (\<lambda>i. if active i \<and> index i < length xs then Some (xs ! index i) else None)"

definition DirectionSample3f_zero :: DirectionSample3f where
  "DirectionSample3f_zero = \<lparr>ds_d = (0, 0, 0), ds_dist = 0, ds_pdf = 0\<rparr>"

text \<open>The method call through an array of pointers: each lane calls the emitter it
  points to, and the result of a lane with a null pointer is zero.\<close>

definition call_sample_direction ::
  "'s::real_vector Emitter option lanes \<Rightarrow> Interaction3f lanes \<Rightarrow> Point2f lanes \<Rightarrow> Mask
     \<Rightarrow> (DirectionSample3f \<times> 's) lanes"
where
  "call_sample_direction emitter ref sample active =
     (\<lambda>i. case emitter i of
            None \<Rightarrow> (DirectionSample3f_zero, 0)
          | Some e \<Rightarrow> sample_direction e (ref i) (sample i) (active i))"

text \<open>The shadow ray of lines 164 and 165.\<close>

definition shadow_ray ::
  "'x Variant_scheme \<Rightarrow> Interaction3f lanes \<Rightarrow> DirectionSample3f lanes \<Rightarrow> Ray3f lanes"
where
  "shadow_ray v ref ds =
     (\<lambda>i. \<lparr>ray_o = it_p (ref i), ray_d = ds_d (ds i),
           ray_mint = Epsilon v * (1 + hmax (vabs (it_p (ref i)))),
           ray_maxt = ds_dist (ds i) * (1 - ShadowEpsilon v),
           ray_time = it_time (ref i), ray_wavelengths = it_wavelengths (ref i)\<rparr>)"

text \<open>
  The body of \<^verbatim>\<open>sample_emitter_direction\<close> (lines 145 to 174). Its result comes with
  the list of the calls of \<^verbatim>\<open>m_emitter_distr.sample_reuse_pdf\<close> that it makes, each
  given by its arguments (the first coordinates of the samples, and the mask): line 155
  is the only place where a query reads the distribution.
\<close>

type_synonym distr_read = "real lanes \<times> Mask"

definition sample_emitter_direction_traced ::
  "'x Variant_scheme \<Rightarrow> ('s::real_vector, 'acc) Backend \<Rightarrow> ('s, 'acc) Scene
     \<Rightarrow> Interaction3f lanes \<Rightarrow> Point2f lanes \<Rightarrow> bool \<Rightarrow> Mask
     \<Rightarrow> (DirectionSample3f lanes \<times> 's lanes) \<times> distr_read list"
where
  "sample_emitter_direction_traced v be sc ref sample' test_visibility active =
     (let sample = sample';
          ds = (\<lambda>i. DirectionSample3f_default);
          spec = (\<lambda>i. 0)
      in if m_emitters sc \<noteq> []
         then
           (let reads = [(\<lambda>i. fst (sample i), active)];
                picked = (\<lambda>i. sample_reuse_pdf (m_emitter_distr sc) (fst (sample i)));
                index = (\<lambda>i. fst (picked i));
                emitter_pdf = (\<lambda>i. fst (snd (picked i)));
                sample = (\<lambda>i. (snd (snd (picked i)), snd (sample i)));
                emitter = gather (m_emitters sc) index active;
                sampled = call_sample_direction emitter ref sample active;
                ds = (\<lambda>i. fst (sampled i));
                spec = (\<lambda>i. snd (sampled i));
                active = (\<lambda>i. active i \<and> ds_pdf (ds i) \<noteq> 0);
                spec = (if test_visibility \<and> any_or_true v active
                        then (let hit = ray_test v be sc (shadow_ray v ref ds) active
                              in (\<lambda>i. if hit i then 0 else spec i))
                        else spec);
                ds = (\<lambda>i. (ds i)\<lparr>ds_pdf := ds_pdf (ds i) * emitter_pdf i\<rparr>);
                spec = (\<lambda>i. rcp (emitter_pdf i) *\<^sub>R spec i)
            in ((ds, spec), reads))
         else ((ds, spec), []))"

text \<open>What \<^verbatim>\<open>sample_emitter_direction\<close> returns.\<close>

definition sample_emitter_direction ::
  "'x Variant_scheme \<Rightarrow> ('s::real_vector, 'acc) Backend \<Rightarrow> ('s, 'acc) Scene
     \<Rightarrow> Interaction3f lanes \<Rightarrow> Point2f lanes \<Rightarrow> bool \<Rightarrow> Mask
     \<Rightarrow> DirectionSample3f lanes \<times> 's lanes"
where
  "sample_emitter_direction v be sc ref sample' test_visibility active =
     fst (sample_emitter_direction_traced v be sc ref sample' test_visibility active)"

section \<open>Notions used to state the properties\<close>

text \<open>The triple (index, selection probability, reused sample) that line 155 draws
  for each lane.\<close>

definition selection :: "('s, 'acc) Scene \<Rightarrow> Point2f lanes \<Rightarrow> (nat \<times> real \<times> real) lanes" where
  "selection sc sample = (\<lambda>i. sample_reuse_pdf (m_emitter_distr sc) (fst (sample i)))"

definition selection_pdf :: "('s, 'acc) Scene \<Rightarrow> Point2f lanes \<Rightarrow> real lanes" where
  "selection_pdf sc sample = (\<lambda>i. fst (snd (selection sc sample i)))"

text \<open>What the emitter selected for a lane returns from its own
  \<^verbatim>\<open>sample_direction\<close>, called for that lane as an active one with the sample whose
  first coordinate is the reused one.\<close>

definition own_sample ::
  "('s, 'acc) Scene \<Rightarrow> Interaction3f lanes \<Rightarrow> Point2f lanes \<Rightarrow> (DirectionSample3f \<times> 's) lanes"
where
  "own_sample sc ref sample =
     (\<lambda>i. sample_direction (m_emitters sc ! fst (selection sc sample i)) (ref i)
            (snd (snd (selection sc sample i)), snd (sample i)) True)"

text \<open>The lanes of \<^verbatim>\<open>ds\<close> and \<^verbatim>\<open>spec\<close> after line 159, the mask after line 160,
  the condition of line 163 and the mask that \<^verbatim>\<open>ray_test\<close> returns in line 166.\<close>

definition sampled ::
  "('s::real_vector, 'acc) Scene \<Rightarrow> Interaction3f lanes \<Rightarrow> Point2f lanes \<Rightarrow> Mask
     \<Rightarrow> (DirectionSample3f \<times> 's) lanes"
where
  "sampled sc ref sample active =
     call_sample_direction
       (gather (m_emitters sc) (\<lambda>i. fst (selection sc sample i)) active) ref
       (\<lambda>i. (snd (snd (selection sc sample i)), snd (sample i))) active"

definition shadow_active ::
  "('s::real_vector, 'acc) Scene \<Rightarrow> Interaction3f lanes \<Rightarrow> Point2f lanes \<Rightarrow> Mask \<Rightarrow> Mask"
where
  "shadow_active sc ref sample active =
     (\<lambda>i. active i \<and> ds_pdf (fst (sampled sc ref sample active i)) \<noteq> 0)"

definition shadow_tested ::
  "'x Variant_scheme \<Rightarrow> ('s::real_vector, 'acc) Scene \<Rightarrow> Interaction3f lanes \<Rightarrow> Point2f lanes
     \<Rightarrow> bool \<Rightarrow> Mask \<Rightarrow> bool"
where
  "shadow_tested v sc ref sample test_visibility active =
     (test_visibility \<and> any_or_true v (shadow_active sc ref sample active))"

definition shadow_hit ::
  "'x Variant_scheme \<Rightarrow> ('s::real_vector, 'acc) Backend \<Rightarrow> ('s, 'acc) Scene
     \<Rightarrow> Interaction3f lanes \<Rightarrow> Point2f lanes \<Rightarrow> Mask \<Rightarrow> Mask"
where
  "shadow_hit v be sc ref sample active =
     ray_test v be sc (shadow_ray v ref (\<lambda>i. fst (sampled sc ref sample active i)))
       (shadow_active sc ref sample active)"

text \<open>The distance \<open>d = max(extent) / (2 tan 22.5\<degree>)\<close> of the default sensor from the
  box, the angle in radians.\<close>

definition sensor_distance :: "BoundingBox3f \<Rightarrow> real" where
  "sensor_distance bbox = hmax (bbox_extents bbox) / (2 * tan (22.5 * pi / 180))"



text \<open>Objects by role, the position of the (n+1)-th object with a property, and the
  position of the object at which the loop of the constructor throws.
  \<open>is_env_emitter_object\<close> is what lines 37 to 39 test: an object that is an emitter (not a
  shape) and whose flag is set.\<close>

fun is_env_emitter_object :: "'s Object \<Rightarrow> bool" where
  "is_env_emitter_object (EmitterObj e) = is_environment e"
| "is_env_emitter_object obj = False"

fun is_integrator :: "'s Object \<Rightarrow> bool" where
  "is_integrator (IntegratorObj i) = True"
| "is_integrator obj = False"

fun has_emitter :: "'s Object \<Rightarrow> bool" where
  "has_emitter (EmitterObj e) = True"
| "has_emitter (ShapeObj shape) = (shape_emitter shape \<noteq> None)"
| "has_emitter obj = False"

fun nth_index :: "('a \<Rightarrow> bool) \<Rightarrow> nat \<Rightarrow> 'a list \<Rightarrow> nat option" where
  "nth_index P n [] = None"
| "nth_index P n (x # xs) =
     (if P x
      then (case n of 0 \<Rightarrow> Some 0 | Suc m \<Rightarrow> map_option Suc (nth_index P m xs))
      else map_option Suc (nth_index P n xs))"

fun failing_index :: "'s Aggregate \<Rightarrow> 's Object list \<Rightarrow> nat option" where
  "failing_index a [] = None"
| "failing_index a (obj # objs) =
     (case add_object a obj of
        Inl e \<Rightarrow> Some 0
      | Inr a' \<Rightarrow> map_option Suc (failing_index a' objs))"

section \<open>Example inputs\<close>

definition example_variant :: Variant where
  "example_variant =
     \<lparr>MTS_USE_EMBREE = False, is_cuda_array = False, PacketSize = 1,
      Epsilon = 1 / 1000000, ShadowEpsilon = 1 / 1000\<rparr>"

definition example_gpu_variant :: Variant where
  "example_gpu_variant = example_variant\<lparr>is_cuda_array := True\<rparr>"

definition example_embree_variant :: Variant where
  "example_embree_variant = example_variant\<lparr>MTS_USE_EMBREE := True\<rparr>"

text \<open>A backend whose scenes have one occluder, met by every ray that reaches further
  than distance 1.\<close>

definition example_backend :: "(real, unit) Backend" where
  "example_backend =
     \<lparr>accel_init_cpu = (\<lambda>objs. Inr ()),
      accel_init_gpu = (\<lambda>objs. Inr ()),
      ray_intersect_cpu = (\<lambda>acc ray active i. if 1 < ray_maxt (ray i) then Some 1 else None),
      ray_intersect_gpu = (\<lambda>acc ray active i. if 1 < ray_maxt (ray i) then Some 1 else None),
      ray_intersect_naive_cpu =
        (\<lambda>acc ray active i. if 1 < ray_maxt (ray i) then Some 1 else None),
      ray_test_cpu = (\<lambda>acc ray active i. 1 < ray_maxt (ray i)),
      ray_test_gpu = (\<lambda>acc ray active i. 1 < ray_maxt (ray i))\<rparr>"

text \<open>The same backend with the occluder taken away.\<close>

definition example_clear_backend :: "(real, unit) Backend" where
  "example_clear_backend =
     \<lparr>accel_init_cpu = (\<lambda>objs. Inr ()),
      accel_init_gpu = (\<lambda>objs. Inr ()),
      ray_intersect_cpu = (\<lambda>acc ray active i. None),
      ray_intersect_gpu = (\<lambda>acc ray active i. None),
      ray_intersect_naive_cpu = (\<lambda>acc ray active i. None),
      ray_test_cpu = (\<lambda>acc ray active i. False),
      ray_test_gpu = (\<lambda>acc ray active i. False)\<rparr>"

definition example_emitter :: "real Emitter" where
  "example_emitter =
     \<lparr>is_environment = False,
      sample_direction =
        (\<lambda>ref u active. (\<lparr>ds_d = (0, 0, 1), ds_dist = 2, ds_pdf = 1 / 2\<rparr>, 3))\<rparr>"

definition example_environment :: "real Emitter" where
  "example_environment =
     \<lparr>is_environment = True,
      sample_direction =
        (\<lambda>ref u active. (\<lparr>ds_d = (0, 1, 0), ds_dist = 100, ds_pdf = 1 / 4\<rparr>, 1))\<rparr>"

definition example_shape :: "real Shape" where
  "example_shape =
     \<lparr>shape_emitter = None, shape_sensor = None,
      shape_bbox = Box (- 1, - 1, - 1) (1, 1, 1)\<rparr>"

definition example_objects :: "real Object list" where
  "example_objects =
     [ShapeObj example_shape, EmitterObj example_emitter, EmitterObj example_environment]"

definition example_scene :: "(real, unit) Scene" where
  "example_scene =
     \<lparr>m_children = example_objects,
      m_emitters = [example_emitter, example_environment],
      m_sensors = [Sensor (default_sensor_props (Box (- 1, - 1, - 1) (1, 1, 1)))],
      m_bbox = Box (- 1, - 1, - 1) (1, 1, 1),
      m_environment = Some example_environment,
      m_integrator = Some (Integrator (Properties_ctor ''path'')),
      m_emitter_distr = emitter_distribution 2, m_accel = ()\<rparr>"

definition example_dark_scene :: "(real, unit) Scene" where
  "example_dark_scene =
     \<lparr>m_children = [ShapeObj example_shape], m_emitters = [],
      m_sensors = [Sensor (default_sensor_props (Box (- 1, - 1, - 1) (1, 1, 1)))],
      m_bbox = Box (- 1, - 1, - 1) (1, 1, 1),
      m_environment = None,
      m_integrator = Some (Integrator (Properties_ctor ''path'')),
      m_emitter_distr = emitter_distribution 0, m_accel = ()\<rparr>"

definition example_dark_aggregate :: "real Aggregate" where
  "example_dark_aggregate =
     \<lparr>m_children = [ShapeObj example_shape], m_emitters = [], m_sensors = [],
      m_bbox = Box (- 1, - 1, - 1) (1, 1, 1), m_environment = None, m_integrator = None\<rparr>"




definition example_ref :: "Interaction3f lanes" where
  "example_ref = (\<lambda>i. \<lparr>it_p = (0, 0, 0), it_time = 0, it_wavelengths = []\<rparr>)"

definition example_sample :: "Point2f lanes" where
  "example_sample = (\<lambda>i. (1 / 2, 1 / 4))"

definition example_ray :: "Ray3f lanes" where
  "example_ray =
     (\<lambda>i. \<lparr>ray_o = (0, 0, 0), ray_d = (0, 0, 1), ray_mint = 0, ray_maxt = 2,
           ray_time = 0, ray_wavelengths = []\<rparr>)"

section \<open>The emitter distribution\<close>

lemma apply_append: "apply_distr_call (Append w) = distr_append w"
  by (rule ext) simp

lemma emitter_distribution_unfold:
  "emitter_distribution n =
     (let distr = fold (\<lambda>i. distr_append 1) [0 ..< n] (DiscreteDistribution_ctor n)
      in if n > 0 then distr_normalize distr else distr)"
  by (simp add: emitter_distribution_def emitter_distr_calls_def fold_map comp_def Let_def
        apply_append)

lemma cdf_fold_append:
  "m_cdf (fold (\<lambda>i. distr_append 1) [0 ..< n] (DiscreteDistribution_ctor m)) = map real [0 ..< Suc n]"
proof (induction n)
  case 0
  show ?case by (simp add: DiscreteDistribution_ctor_def)
next
  case (Suc n)
  have "last (map real [0 ..< Suc n]) = real n"
    by simp
  with Suc show ?case
    by (simp add: distr_append_def)
qed

lemma normalized_fold_append:
  "m_normalized (fold (\<lambda>i. distr_append 1) [0 ..< n] (DiscreteDistribution_ctor m)) = False"
  by (induction n) (simp_all add: DiscreteDistribution_ctor_def distr_append_def)

lemma cdf_emitter_distribution:
  assumes "0 < n"
  shows "m_cdf (emitter_distribution n) = map (\<lambda>k. real k * (1 / real n)) [0 ..< Suc n]"
proof -
  let ?d = "fold (\<lambda>i. distr_append 1) [0 ..< n] (DiscreteDistribution_ctor n)"
  have c: "m_cdf ?d = map real [0 ..< Suc n]" by (rule cdf_fold_append)
  have l: "last (m_cdf ?d) = real n" unfolding c by simp
  have "m_cdf (distr_normalize ?d) = map (\<lambda>c. c * (1 / real n)) (m_cdf ?d)"
    using assms l by (simp add: distr_normalize_def Let_def)
  also have "\<dots> = map (\<lambda>k. real k * (1 / real n)) [0 ..< Suc n]"
    unfolding c by (simp add: comp_def)
  finally show ?thesis using assms by (simp add: emitter_distribution_unfold Let_def)
qed

lemma normalized_emitter_distribution:
  "m_normalized (emitter_distribution n) = (0 < n)"
proof -
  let ?d = "fold (\<lambda>i. distr_append 1) [0 ..< n] (DiscreteDistribution_ctor n)"
  have c: "m_cdf ?d = map real [0 ..< Suc n]" by (rule cdf_fold_append)
  have l: "last (m_cdf ?d) = real n" unfolding c by simp
  show ?thesis
    using l normalized_fold_append[of n n]
    by (cases "n = 0")
       (simp_all add: emitter_distribution_unfold Let_def distr_normalize_def
          DiscreteDistribution_ctor_def)
qed

lemma pmf_emitter_distribution:
  assumes "i < n"
  shows "distr_pmf (emitter_distribution n) i = 1 / real n"
proof -
  have n: "0 < n" using assms by simp
  have a: "map (\<lambda>k. real k * (1 / real n)) [0 ..< Suc n] ! (i + 1) = real (i + 1) * (1 / real n)"
    using assms by (simp del: upt_Suc)
  have b: "map (\<lambda>k. real k * (1 / real n)) [0 ..< Suc n] ! i = real i * (1 / real n)"
    using assms by (simp del: upt_Suc)
  show ?thesis
    unfolding distr_pmf_def cdf_emitter_distribution[OF n] a b
    by (simp add: add_divide_distrib)
qed

lemma sample_emitter_distribution:
  assumes "0 < n"
  shows "distr_sample (emitter_distribution n) u < n"
  unfolding distr_sample_def cdf_emitter_distribution[OF assms]
  using assms by (simp del: upt_Suc)

section \<open>Construction: general facts\<close>

lemma Scene_ctor_InrE:
  assumes "Scene_ctor v be objs = Inr sc"
  obtains a acc where
    "add_objects empty_aggregate objs = Inr a"
    "(if is_cuda_array v then accel_init_gpu be objs else accel_init_cpu be objs) = Inr acc"
    "sc = \<lparr>m_children = m_children (add_defaults a), m_emitters = m_emitters (add_defaults a),
           m_sensors = m_sensors (add_defaults a), m_bbox = m_bbox (add_defaults a),
           m_environment = m_environment (add_defaults a),
           m_integrator = m_integrator (add_defaults a),
           m_emitter_distr = emitter_distribution (length (m_emitters (add_defaults a))),
           m_accel = acc\<rparr>"
  using assms unfolding Scene_ctor_def Let_def
  by (auto split: sum.splits)

lemma Scene_ctor_distr:
  assumes "Scene_ctor v be objs = Inr sc"
  shows "m_emitter_distr sc = emitter_distribution (length (m_emitters sc))"
  using assms by (elim Scene_ctor_InrE) simp

section \<open>Configuration errors of the constructor\<close>

lemma add_object_Inl:
  "add_object a obj = Inl e \<longleftrightarrow>
     (is_env_emitter_object obj \<and> m_environment a \<noteq> None
        \<and> e = Exception ''Only one environment emitter can be specified per scene.'')
     \<or> (is_integrator obj \<and> m_integrator a \<noteq> None
        \<and> e = Exception ''Only one integrator can be specified per scene.'')"
  by (cases obj) (auto simp add: Let_def split: option.splits)

lemma add_object_Inr_environment:
  "add_object a obj = Inr a' \<Longrightarrow>
     (m_environment a' = None) = (m_environment a = None \<and> \<not> is_env_emitter_object obj)"
  by (cases obj) (auto simp add: Let_def split: option.splits if_splits)

lemma add_object_Inr_integrator:
  "add_object a obj = Inr a' \<Longrightarrow>
     (m_integrator a' = None) = (m_integrator a = None \<and> \<not> is_integrator obj)"
  by (cases obj) (auto simp add: Let_def split: option.splits if_splits)

lemma add_object_Inr_emitters:
  "add_object a obj = Inr a' \<Longrightarrow> \<not> has_emitter obj \<Longrightarrow> m_emitters a' = m_emitters a"
  by (cases obj) (auto simp add: Let_def split: option.splits if_splits)

lemma env_not_integrator: "is_env_emitter_object obj \<Longrightarrow> \<not> is_integrator obj"
  by (cases obj) simp_all

lemma env_has_emitter: "is_env_emitter_object obj \<Longrightarrow> has_emitter obj"
  by (cases obj) simp_all

lemma nth_index_exists:
  "n < length (filter P xs) \<Longrightarrow> \<exists>k. nth_index P n xs = Some k"
proof (induction xs arbitrary: n)
  case Nil
  then show ?case by simp
next
  case (Cons x xs)
  then show ?case
    by (cases n) (auto split: if_splits)
qed

lemma nth_index_position:
  "nth_index P n xs = Some k \<Longrightarrow>
     k < length xs \<and> P (xs ! k) \<and> length (filter P (take k xs)) = n"
proof (induction xs arbitrary: n k)
  case Nil
  then show ?case by simp
next
  case (Cons x xs)
  show ?case
  proof (cases "P x")
    case False
    with Cons.prems obtain k' where k: "k = Suc k'" "nth_index P n xs = Some k'"
      by auto
    from Cons.IH[OF k(2)] False k(1) show ?thesis by simp
  next
    case True
    show ?thesis
    proof (cases n)
      case 0
      with True Cons.prems show ?thesis by simp
    next
      case (Suc m)
      with True Cons.prems obtain k' where k: "k = Suc k'" "nth_index P m xs = Some k'"
        by auto
      from Cons.IH[OF k(2)] True k(1) Suc show ?thesis by simp
    qed
  qed
qed

lemma add_objects_Inl_ctor:
  "add_objects empty_aggregate objs = Inl e \<Longrightarrow> Scene_ctor v be objs = Inl e"
  by (simp add: Scene_ctor_def)

lemma environment_failure:
  assumes "nth_index is_env_emitter_object (if m_environment a = None then 1 else 0) objs = Some k"
    and "(if m_integrator a = None then 0 else 1) + length (filter is_integrator (take k objs))
           \<le> (1::nat)"
  shows "failing_index a objs = Some k
         \<and> add_objects a objs
             = Inl (Exception ''Only one environment emitter can be specified per scene.'')"
  using assms
proof (induction objs arbitrary: a k)
  case Nil
  then show ?case by simp
next
  case (Cons obj objs)
  show ?case
  proof (cases "add_object a obj")
    case (Inl e)
    then have "is_env_emitter_object obj \<and> m_environment a \<noteq> None
                 \<and> e = Exception ''Only one environment emitter can be specified per scene.''
               \<or> is_integrator obj \<and> m_integrator a \<noteq> None
                 \<and> e = Exception ''Only one integrator can be specified per scene.''"
      by (simp add: add_object_Inl)
    then show ?thesis
    proof
      assume env: "is_env_emitter_object obj \<and> m_environment a \<noteq> None
                 \<and> e = Exception ''Only one environment emitter can be specified per scene.''"
      with Cons.prems(1) have "k = 0" by simp
      with env Inl show ?thesis by simp
    next
      assume int: "is_integrator obj \<and> m_integrator a \<noteq> None
                 \<and> e = Exception ''Only one integrator can be specified per scene.''"
      then have "\<not> is_env_emitter_object obj" using env_not_integrator by blast
      with Cons.prems(1) obtain k' where "k = Suc k'" by auto
      with int Cons.prems(2) show ?thesis by (auto split: if_splits)
    qed
  next
    case (Inr a')
    have env': "(m_environment a' = None) = (m_environment a = None \<and> \<not> is_env_emitter_object obj)"
      using Inr by (rule add_object_Inr_environment)
    have int': "(m_integrator a' = None) = (m_integrator a = None \<and> \<not> is_integrator obj)"
      using Inr by (rule add_object_Inr_integrator)
    have notfail: "\<not> (is_env_emitter_object obj \<and> m_environment a \<noteq> None)"
      using Inr add_object_Inl[of a obj] by auto
    from Cons.prems(1) notfail obtain k' where k: "k = Suc k'"
      and n: "nth_index is_env_emitter_object (if m_environment a' = None then 1 else 0) objs = Some k'"
      using env' by (auto split: if_splits)
    have c: "(if m_integrator a' = None then 0 else 1)
               + length (filter is_integrator (take k' objs)) \<le> (1::nat)"
      using Cons.prems(2) k int' by (auto split: if_splits)
    from Cons.IH[OF n c] Inr k show ?thesis by simp
  qed
qed

lemma integrator_failure:
  assumes "nth_index is_env_emitter_object (if m_environment a = None then 1 else 0) objs = Some k"
    and "(2::nat) \<le> (if m_integrator a = None then 0 else 1)
           + length (filter is_integrator (take k objs))"
  shows "\<exists>j<k. failing_index a objs = Some j
         \<and> add_objects a objs
             = Inl (Exception ''Only one integrator can be specified per scene.'')"
  using assms
proof (induction objs arbitrary: a k)
  case Nil
  then show ?case by simp
next
  case (Cons obj objs)
  show ?case
  proof (cases "add_object a obj")
    case (Inl e)
    then have "is_env_emitter_object obj \<and> m_environment a \<noteq> None
                 \<and> e = Exception ''Only one environment emitter can be specified per scene.''
               \<or> is_integrator obj \<and> m_integrator a \<noteq> None
                 \<and> e = Exception ''Only one integrator can be specified per scene.''"
      by (simp add: add_object_Inl)
    then show ?thesis
    proof
      assume env: "is_env_emitter_object obj \<and> m_environment a \<noteq> None
                 \<and> e = Exception ''Only one environment emitter can be specified per scene.''"
      with Cons.prems(1) have "k = 0" by simp
      with Cons.prems(2) show ?thesis by (simp split: if_splits)
    next
      assume int: "is_integrator obj \<and> m_integrator a \<noteq> None
                 \<and> e = Exception ''Only one integrator can be specified per scene.''"
      then have "\<not> is_env_emitter_object obj" using env_not_integrator by blast
      with Cons.prems(1) obtain k' where "k = Suc k'" by auto
      with int Inl show ?thesis by simp
    qed
  next
    case (Inr a')
    have env': "(m_environment a' = None) = (m_environment a = None \<and> \<not> is_env_emitter_object obj)"
      using Inr by (rule add_object_Inr_environment)
    have int': "(m_integrator a' = None) = (m_integrator a = None \<and> \<not> is_integrator obj)"
      using Inr by (rule add_object_Inr_integrator)
    have notfail: "\<not> (is_env_emitter_object obj \<and> m_environment a \<noteq> None)"
      using Inr add_object_Inl[of a obj] by auto
    from Cons.prems(1) notfail obtain k' where k: "k = Suc k'"
      and n: "nth_index is_env_emitter_object (if m_environment a' = None then 1 else 0) objs = Some k'"
      using env' by (auto split: if_splits)
    have notfail': "\<not> (is_integrator obj \<and> m_integrator a \<noteq> None)"
      using Inr add_object_Inl[of a obj] by auto
    have c: "(2::nat) \<le> (if m_integrator a' = None then 0 else 1)
               + length (filter is_integrator (take k' objs))"
      using Cons.prems(2) k int' notfail' by (auto split: if_splits)
    from Cons.IH[OF n c] obtain j where "j < k'" "failing_index a' objs = Some j"
      "add_objects a' objs = Inl (Exception ''Only one integrator can be specified per scene.'')"
      by blast
    with Inr k have "Suc j < k \<and> failing_index a (obj # objs) = Some (Suc j)
        \<and> add_objects a (obj # objs)
            = Inl (Exception ''Only one integrator can be specified per scene.'')"
      by simp
    then show ?thesis by blast
  qed
qed

text \<open>
  The branch of lines 37 to 43 does what its message says for the emitters that are
  objects of the collection: with two or more of them flagged as environment emitters the
  loop throws, no later than at the second of them, whose position is \<open>k\<close>. It throws
  exactly there when at most one integrator stands before it, and at the second
  integrator otherwise.
\<close>

lemma standalone_environment_emitters_fail:
  assumes "2 \<le> length (filter is_env_emitter_object objs)"
  shows "\<exists>k j e. nth_index is_env_emitter_object 1 objs = Some k
           \<and> k < length objs \<and> is_env_emitter_object (objs ! k)
           \<and> length (filter is_env_emitter_object (take k objs)) = 1
           \<and> failing_index empty_aggregate objs = Some j \<and> j \<le> k
           \<and> Scene_ctor v be objs = Inl e
           \<and> (if length (filter is_integrator (take k objs)) \<le> 1
              then j = k
                \<and> e = Exception ''Only one environment emitter can be specified per scene.''
              else j < k
                \<and> e = Exception ''Only one integrator can be specified per scene.'')"
proof -
  from assms obtain k where k: "nth_index is_env_emitter_object 1 objs = Some k"
    using nth_index_exists[of 1 is_env_emitter_object objs] by auto
  have pos: "k < length objs \<and> is_env_emitter_object (objs ! k)
               \<and> length (filter is_env_emitter_object (take k objs)) = 1"
    using nth_index_position[OF k] .
  have k0: "nth_index is_env_emitter_object
              (if m_environment (empty_aggregate :: 'a Aggregate) = None then 1 else 0) objs
            = Some k"
    using k by (simp add: empty_aggregate_def)
  show ?thesis
  proof (cases "length (filter is_integrator (take k objs)) \<le> 1")
    case True
    then have "(if m_integrator (empty_aggregate :: 'a Aggregate) = None then 0 else 1)
                 + length (filter is_integrator (take k objs)) \<le> (1::nat)"
      by (simp add: empty_aggregate_def)
    from environment_failure[OF k0 this] True k pos show ?thesis
      by (simp add: add_objects_Inl_ctor)
  next
    case False
    then have "(2::nat) \<le> (if m_integrator (empty_aggregate :: 'a Aggregate) = None then 0 else 1)
                 + length (filter is_integrator (take k objs))"
      by (simp add: empty_aggregate_def)
    from integrator_failure[OF k0 this] obtain j where "j < k"
      "failing_index empty_aggregate objs = Some j"
      "add_objects empty_aggregate objs
         = Inl (Exception ''Only one integrator can be specified per scene.'')"
      by blast
    with False k pos show ?thesis
      by (simp add: add_objects_Inl_ctor)
  qed
qed



section \<open>Sampling without emitters\<close>

text \<open>
  Claim C1. On a scene whose emitter list is empty, \<open>sample_emitter_direction\<close> returns,
  for every reference point, every 2D sample, either value of \<open>test_visibility\<close> and
  every mask, the default direction sample in every lane, whose pdf is zero, and zero
  radiance in every lane. The body guarded by \<^verbatim>\<open>!m_emitters.empty()\<close> is skipped, so
  what is returned is the default-constructed \<^verbatim>\<open>ds\<close> and \<^verbatim>\<open>spec = 0\<close>.
\<close>

theorem sample_emitter_direction_no_emitters:
  assumes "m_emitters sc = []"
  shows "sample_emitter_direction v be sc ref sample test_visibility active =
           (\<lambda>i. DirectionSample3f_default, \<lambda>i. 0)
         \<and> ds_pdf DirectionSample3f_default = 0"
  using assms by (simp add: sample_emitter_direction_def sample_emitter_direction_traced_def
        DirectionSample3f_default_def)

theorem sample_emitter_direction_no_emitters_witness:
  "m_emitters example_dark_scene = []
   \<and> sample_emitter_direction example_variant example_backend example_dark_scene
        example_ref example_sample True (\<lambda>i. True)
      = (\<lambda>i. \<lparr>ds_d = (0, 0, 0), ds_dist = 0, ds_pdf = 0\<rparr>, \<lambda>i. 0)"
  using sample_emitter_direction_no_emitters
          [of example_dark_scene example_variant example_backend example_ref example_sample
              True "\<lambda>i. True"]
  by (simp add: example_dark_scene_def DirectionSample3f_default_def)

section \<open>The pdf and the radiance of a sampled direction\<close>

lemma sample_emitter_direction_unfold:
  assumes "m_emitters sc \<noteq> []"
  shows "sample_emitter_direction v be sc ref sample test_visibility active =
           (\<lambda>i. (fst (sampled sc ref sample active i))
                   \<lparr>ds_pdf := ds_pdf (fst (sampled sc ref sample active i))
                               * selection_pdf sc sample i\<rparr>,
            \<lambda>i. rcp (selection_pdf sc sample i) *\<^sub>R
                   (if shadow_tested v sc ref sample test_visibility active
                       \<and> shadow_hit v be sc ref sample active i
                    then 0 else snd (sampled sc ref sample active i)))"
  using assms
  by (auto simp add: sample_emitter_direction_def sample_emitter_direction_traced_def Let_def
        sampled_def selection_def
        selection_pdf_def shadow_tested_def shadow_hit_def shadow_active_def)

lemma sampled_active:
  assumes "active i" and "fst (selection sc sample i) < length (m_emitters sc)"
  shows "sampled sc ref sample active i = own_sample sc ref sample i"
  using assms by (simp add: sampled_def own_sample_def call_sample_direction_def gather_def)

lemma sampled_frame: "sampled (sc\<lparr>m_accel := acc\<rparr>) ref sample active = sampled sc ref sample active"
  by (simp add: sampled_def selection_def)

lemma example_cdf: "m_cdf (emitter_distribution 2) = [0, 1 / 2, 1]"
  by (simp add: cdf_emitter_distribution upt_rec)

lemma example_ctor:
  "Scene_ctor example_variant example_backend example_objects = Inr example_scene"
  by (simp add: Scene_ctor_def example_variant_def example_backend_def example_objects_def
        example_scene_def empty_aggregate_def add_defaults_def Let_def example_shape_def
        example_emitter_def example_environment_def numeral_2_eq_2)

lemma example_selection: "selection example_scene example_sample 0 = (1, 1 / 2, 0)"
  by (simp add: selection_def example_scene_def example_sample_def sample_reuse_pdf_def Let_def
       distr_sample_def distr_pmf_def example_cdf)

lemma example_own: "own_sample example_scene example_ref example_sample 0 = (\<lparr>ds_d = (0, 1, 0), ds_dist = 100, ds_pdf = 1 / 4\<rparr>, 1)"
  by (simp add: own_sample_def example_selection) (simp add: example_scene_def example_environment_def)

lemma example_sampled: "sampled example_scene example_ref example_sample (\<lambda>i. True) = (\<lambda>i. (\<lparr>ds_d = (0, 1, 0), ds_dist = 100, ds_pdf = 1 / 4\<rparr>, 1))"
  by (simp add: sampled_def call_sample_direction_def gather_def selection_def example_sample_def
       sample_reuse_pdf_def Let_def distr_sample_def distr_pmf_def example_cdf example_scene_def example_environment_def)

lemma example_tested: "shadow_tested example_variant example_scene example_ref example_sample True (\<lambda>i. True)"
  by (simp add: shadow_tested_def shadow_active_def example_sampled any_or_true_def any_lanes_def example_variant_def)

lemma example_hit: "shadow_hit example_variant example_backend example_scene example_ref example_sample (\<lambda>i. True) 0"
  by (simp add: shadow_hit_def shadow_active_def example_sampled ray_test_def shadow_ray_def example_variant_def example_backend_def)

text \<open>
  Claim C2. For a constructed scene with a non-empty emitter list and an active lane
  \<open>i\<close>: the index drawn for the lane selects an emitter of the list; the pdf of the
  returned direction sample is the pdf that this emitter's own \<open>sample_direction\<close>
  produced, multiplied by the probability of selecting the emitter; and the returned
  radiance is the emitter's radiance, set to zero first where the visibility test ran and
  the shadow ray of the lane hit something, multiplied by the reciprocal of the selection
  probability.
\<close>

theorem sample_emitter_direction_pdf_and_radiance:
  assumes "Scene_ctor v be objs = Inr sc"
    and "m_emitters sc \<noteq> []"
    and "active i"
  shows "fst (selection sc sample i) < length (m_emitters sc)
         \<and> ds_pdf (fst (sample_emitter_direction v be sc ref sample test_visibility active) i)
             = ds_pdf (fst (own_sample sc ref sample i)) * selection_pdf sc sample i
         \<and> snd (sample_emitter_direction v be sc ref sample test_visibility active) i
             = rcp (selection_pdf sc sample i) *\<^sub>R
                 (if shadow_tested v sc ref sample test_visibility active
                     \<and> shadow_hit v be sc ref sample active i
                  then 0 else snd (own_sample sc ref sample i))"
proof -
  have n: "0 < length (m_emitters sc)"
    using assms(2) by simp
  have "m_emitter_distr sc = emitter_distribution (length (m_emitters sc))"
    using assms(1) by (rule Scene_ctor_distr)
  then have idx: "fst (selection sc sample i) < length (m_emitters sc)"
    using n by (simp add: selection_def sample_reuse_pdf_def Let_def sample_emitter_distribution)
  have own: "sampled sc ref sample active i = own_sample sc ref sample i"
    using assms(3) idx by (rule sampled_active)
  show ?thesis
    using idx own
    by (simp add: sample_emitter_direction_unfold[OF assms(2)])
qed

theorem sample_emitter_direction_pdf_and_radiance_witness:
  "Scene_ctor example_variant example_backend example_objects = Inr example_scene
   \<and> m_emitters example_scene \<noteq> []
   \<and> selection example_scene example_sample 0 = (1, 1 / 2, 0)
   \<and> own_sample example_scene example_ref example_sample 0
       = (\<lparr>ds_d = (0, 1, 0), ds_dist = 100, ds_pdf = 1 / 4\<rparr>, 1)
   \<and> ds_pdf (fst (sample_emitter_direction example_variant example_backend example_scene
                    example_ref example_sample True (\<lambda>i. True)) 0) = 1 / 8
   \<and> snd (sample_emitter_direction example_variant example_backend example_scene
            example_ref example_sample True (\<lambda>i. True)) 0 = 0
   \<and> snd (sample_emitter_direction example_variant example_backend example_scene
            example_ref example_sample False (\<lambda>i. True)) 0 = 2"
proof -
  have e: "m_emitters example_scene \<noteq> []"
    by (simp add: example_scene_def)
  have f: "\<not> shadow_tested example_variant example_scene example_ref example_sample False
               (\<lambda>i. True)"
    by (simp add: shadow_tested_def)
  from sample_emitter_direction_pdf_and_radiance
         [OF example_ctor e, of "\<lambda>i. True" 0 example_sample example_ref True]
       sample_emitter_direction_pdf_and_radiance
         [OF example_ctor e, of "\<lambda>i. True" 0 example_sample example_ref False]
  show ?thesis
    using example_ctor e f example_tested example_hit
    by (simp add: example_selection example_own selection_pdf_def rcp_def)
qed

text \<open>
  Claim C3. With \<open>test_visibility\<close> true, in a lane where the shadow ray is traced and
  reports a hit, the returned radiance is zero, and nothing else changes: the returned
  direction samples (direction, distance, pdf and all, in every lane) are those that the
  same call returns with any other acceleration structure and backend, in particular
  one in which no ray hits anything, and with either value of \<open>test_visibility\<close>.
\<close>

theorem shadow_hit_zeroes_radiance_only:
  assumes "m_emitters sc \<noteq> []"
    and "shadow_tested v sc ref sample True active"
    and "shadow_hit v be sc ref sample active i"
  shows "snd (sample_emitter_direction v be sc ref sample True active) i = 0
         \<and> (\<forall>be' acc' test_visibility'.
               fst (sample_emitter_direction v be' (sc\<lparr>m_accel := acc'\<rparr>) ref sample
                      test_visibility' active)
               = fst (sample_emitter_direction v be sc ref sample True active))"
proof -
  have "snd (sample_emitter_direction v be sc ref sample True active) i = 0"
    using assms(2,3) by (simp add: sample_emitter_direction_unfold[OF assms(1)])
  moreover have "fst (sample_emitter_direction v be' (sc\<lparr>m_accel := acc'\<rparr>) ref sample tv' active)
                 = fst (sample_emitter_direction v be sc ref sample True active)"
    for be' :: "('a, 'b) Backend" and acc' tv'
  proof -
    have e: "m_emitters (sc\<lparr>m_accel := acc'\<rparr>) \<noteq> []"
      using assms(1) by simp
    show ?thesis
      by (simp add: sample_emitter_direction_unfold[OF e]
            sample_emitter_direction_unfold[OF assms(1)] sampled_frame selection_pdf_def
            selection_def)
  qed
  ultimately show ?thesis by blast
qed

theorem shadow_hit_zeroes_radiance_only_witness:
  "m_emitters example_scene \<noteq> []
   \<and> shadow_tested example_variant example_scene example_ref example_sample True (\<lambda>i. True)
   \<and> shadow_hit example_variant example_backend example_scene example_ref example_sample
        (\<lambda>i. True) 0
   \<and> \<not> shadow_hit example_variant example_clear_backend example_scene example_ref
          example_sample (\<lambda>i. True) 0
   \<and> snd (sample_emitter_direction example_variant example_backend example_scene
            example_ref example_sample True (\<lambda>i. True)) 0 = 0
   \<and> snd (sample_emitter_direction example_variant example_clear_backend example_scene
            example_ref example_sample True (\<lambda>i. True)) 0 = 2
   \<and> fst (sample_emitter_direction example_variant example_clear_backend example_scene
            example_ref example_sample True (\<lambda>i. True))
       = fst (sample_emitter_direction example_variant example_backend example_scene
            example_ref example_sample True (\<lambda>i. True))
   \<and> fst (sample_emitter_direction example_variant example_backend example_scene
            example_ref example_sample True (\<lambda>i. True)) 0
       = \<lparr>ds_d = (0, 1, 0), ds_dist = 100, ds_pdf = 1 / 8\<rparr>"
proof -
  have e: "m_emitters example_scene \<noteq> []"
    by (simp add: example_scene_def)
  have u: "example_scene\<lparr>m_accel := ()\<rparr> = example_scene"
    by simp
  have c: "\<not> shadow_hit example_variant example_clear_backend example_scene example_ref
               example_sample (\<lambda>i. True) 0"
    by (simp add: shadow_hit_def ray_test_def example_variant_def example_clear_backend_def)
  have r: "snd (sample_emitter_direction example_variant example_clear_backend example_scene
                  example_ref example_sample True (\<lambda>i. True)) 0 = 2"
    using c
    by (simp add: sample_emitter_direction_unfold[OF e] example_sampled selection_pdf_def
          example_selection rcp_def)
  have d: "fst (sample_emitter_direction example_variant example_backend example_scene
                  example_ref example_sample True (\<lambda>i. True)) 0
           = \<lparr>ds_d = (0, 1, 0), ds_dist = 100, ds_pdf = 1 / 8\<rparr>"
    by (simp add: sample_emitter_direction_unfold[OF e] example_sampled selection_pdf_def
          example_selection)
  from shadow_hit_zeroes_radiance_only [OF e example_tested example_hit]
  have "snd (sample_emitter_direction example_variant example_backend example_scene
               example_ref example_sample True (\<lambda>i. True)) 0 = 0"
    and "fst (sample_emitter_direction example_variant example_clear_backend
               (example_scene\<lparr>m_accel := ()\<rparr>) example_ref example_sample True (\<lambda>i. True))
         = fst (sample_emitter_direction example_variant example_backend example_scene
               example_ref example_sample True (\<lambda>i. True))"
    by blast+
  with e example_tested example_hit c r d show ?thesis
    unfolding u by blast
qed

section \<open>The default sensor\<close>

text \<open>
  Claim C5. When the loop of the constructor has registered no sensor and the bounding
  box is valid, the only sensor of the scene is created from properties of the plugin
  \<open>perspective\<close> with a field of view of 45 degrees, near clip \<open>d / 100\<close>, far clip
  \<open>max(extent) * 5 + d\<close> and focus distance \<open>d + extent.z / 2\<close>, where
  \<open>d = max(extent) / (2 tan 22.5\<degree>)\<close>; its transform is the translation to the point
  with the \<open>x\<close> and \<open>y\<close> of the centre of the box and \<open>z = min.z - d\<close>: on the axis
  through the centre of the box along its \<open>z\<close> extent, at distance \<open>d\<close> behind the
  box.
\<close>

theorem default_sensor_placement:
  assumes "Scene_ctor v be objs = Inr sc"
    and "add_objects empty_aggregate objs = Inr a"
    and "m_sensors a = []"
    and "bbox_valid (m_bbox a)"
  shows "\<exists>props. m_sensors sc = [Sensor props]
           \<and> plugin_name props = ''perspective''
           \<and> floats props ''fov'' = Some 45
           \<and> floats props ''near_clip'' = Some (sensor_distance (m_bbox a) / 100)
           \<and> floats props ''far_clip''
               = Some (hmax (bbox_extents (m_bbox a)) * 5 + sensor_distance (m_bbox a))
           \<and> floats props ''focus_distance''
               = Some (sensor_distance (m_bbox a) + vz (bbox_extents (m_bbox a)) / 2)
           \<and> transforms props ''to_world''
               = Some (translate (vx (bbox_center (m_bbox a)), vy (bbox_center (m_bbox a)),
                         vz (bbox_min (m_bbox a)) - sensor_distance (m_bbox a)))"
proof -
  have s: "m_sensors sc = [Sensor (default_sensor_props (m_bbox a))]"
    using assms(1,2,3)
    by (elim Scene_ctor_InrE) (simp add: add_defaults_def Let_def)
  have angle: "45 * 0.5 * pi / 180 = 22.5 * pi / 180"
    by simp
  show ?thesis
    unfolding s
    using assms(4)
    by (simp add: default_sensor_props_def Let_def set_float_def set_transform_def
          Properties_ctor_def sensor_distance_def)
qed

theorem default_sensor_placement_witness:
  "Scene_ctor example_variant example_backend [ShapeObj example_shape] = Inr example_dark_scene
   \<and> add_objects empty_aggregate [ShapeObj example_shape] = Inr example_dark_aggregate
   \<and> m_sensors example_dark_aggregate = []
   \<and> bbox_valid (m_bbox example_dark_aggregate)
   \<and> sensor_distance (m_bbox example_dark_aggregate) = 1 / tan (pi / 8)
   \<and> (\<exists>props. m_sensors example_dark_scene = [Sensor props]
         \<and> plugin_name props = ''perspective''
         \<and> floats props ''fov'' = Some 45
         \<and> floats props ''near_clip'' = Some (1 / tan (pi / 8) / 100)
         \<and> floats props ''far_clip'' = Some (10 + 1 / tan (pi / 8))
         \<and> floats props ''focus_distance'' = Some (1 / tan (pi / 8) + 1)
         \<and> transforms props ''to_world'' = Some (translate (0, 0, - 1 - 1 / tan (pi / 8))))"
proof -
  have a: "add_objects empty_aggregate [ShapeObj example_shape] = Inr example_dark_aggregate"
    by (simp add: empty_aggregate_def example_dark_aggregate_def example_shape_def Let_def)
  have c: "Scene_ctor example_variant example_backend [ShapeObj example_shape]
             = Inr example_dark_scene"
    unfolding Scene_ctor_def a
    by (simp add: example_variant_def example_backend_def example_dark_scene_def
          example_dark_aggregate_def add_defaults_def Let_def)
  have s: "m_sensors example_dark_aggregate = []"
    by (simp add: example_dark_aggregate_def)
  have b: "m_bbox example_dark_aggregate = Box (- 1, - 1, - 1) (1, 1, 1)"
    by (simp add: example_dark_aggregate_def)
  have v: "bbox_valid (m_bbox example_dark_aggregate)"
    unfolding b by (simp add: vx_def vy_def vz_def)
  have d: "sensor_distance (m_bbox example_dark_aggregate) = 1 / tan (pi / 8)"
    unfolding b by (simp add: sensor_distance_def hmax_def vx_def vy_def vz_def)
  from default_sensor_placement [OF c a s v]
  show ?thesis
    using a c s v d unfolding d b
    by (simp add: hmax_def vx_def vy_def vz_def)
qed

section \<open>The brute-force query and the backends\<close>

text \<open>
  Claim C6. \<open>ray_intersect_naive\<close> returns the result of the brute-force function
  \<open>ray_intersect_naive_cpu\<close> when the backend is the software structure (neither Embree
  nor CUDA), and fails with the "not implemented" error for \<open>ray_intersect_naive\<close> on
  the other two backends, for every scene, ray batch and mask.
\<close>

theorem ray_intersect_naive_backend:
  "(backend_kind v = SoftwareStructure \<longrightarrow>
      ray_intersect_naive v be sc ray active
        = Inr (ray_intersect_naive_cpu be (m_accel sc) ray active))
   \<and> (backend_kind v \<noteq> SoftwareStructure \<longrightarrow>
      ray_intersect_naive v be sc ray active = Inl (NotImplemented ''ray_intersect_naive''))"
  by (simp add: backend_kind_def ray_intersect_naive_def)

theorem ray_intersect_naive_backend_witness:
  "backend_kind example_variant = SoftwareStructure
   \<and> ray_intersect_naive example_variant example_backend example_scene example_ray (\<lambda>i. True)
       = Inr (\<lambda>i. Some 1)
   \<and> backend_kind example_embree_variant = HardwareBVH
   \<and> ray_intersect_naive example_embree_variant example_backend example_scene example_ray
        (\<lambda>i. True) = Inl (NotImplemented ''ray_intersect_naive'')
   \<and> backend_kind example_gpu_variant = GPUBackend
   \<and> ray_intersect_naive example_gpu_variant example_backend example_scene example_ray
        (\<lambda>i. True) = Inl (NotImplemented ''ray_intersect_naive'')"
  using ray_intersect_naive_backend
          [of example_variant example_backend example_scene example_ray "\<lambda>i. True"]
        ray_intersect_naive_backend
          [of example_embree_variant example_backend example_scene example_ray "\<lambda>i. True"]
        ray_intersect_naive_backend
          [of example_gpu_variant example_backend example_scene example_ray "\<lambda>i. True"]
  by (simp add: backend_kind_def example_variant_def example_embree_variant_def
        example_gpu_variant_def example_backend_def example_ray_def)

section \<open>The constructed emitter distribution is uniform\<close>

text \<open>
  Claim C8. In a scene constructed with \<open>n > 0\<close> emitters, the emitter distribution is
  the one built by appending the weight 1 once per emitter and normalizing; it is
  normalized, its weights sum to 1, the weight of each emitter is \<open>1 / n\<close>, and every
  draw selects an emitter of the list with selection probability \<open>1 / n\<close>.
\<close>

theorem emitter_distribution_uniform:
  assumes "Scene_ctor v be objs = Inr sc"
    and "n = length (m_emitters sc)"
    and "0 < n"
  shows "m_emitter_distr sc
           = distr_normalize
               (fold (\<lambda>i. distr_append 1) [0 ..< n] (DiscreteDistribution_ctor n))
         \<and> m_normalized (m_emitter_distr sc)
         \<and> (\<Sum>i < n. distr_pmf (m_emitter_distr sc) i) = 1
         \<and> (\<forall>i < n. distr_pmf (m_emitter_distr sc) i = 1 / real n)
         \<and> (\<forall>u. fst (sample_reuse_pdf (m_emitter_distr sc) u) < n
                \<and> fst (snd (sample_reuse_pdf (m_emitter_distr sc) u)) = 1 / real n)"
proof -
  have d: "m_emitter_distr sc = emitter_distribution n"
    using assms(1,2) by (simp add: Scene_ctor_distr)
  have built: "emitter_distribution n
                 = distr_normalize
                     (fold (\<lambda>i. distr_append 1) [0 ..< n] (DiscreteDistribution_ctor n))"
    using assms(3) by (simp add: emitter_distribution_unfold Let_def)
  have pmf: "\<forall>i < n. distr_pmf (emitter_distribution n) i = 1 / real n"
    by (simp add: pmf_emitter_distribution)
  then have "(\<Sum>i < n. distr_pmf (emitter_distribution n) i) = (\<Sum>i < n. 1 / real n)"
    by simp
  also have "\<dots> = 1"
    using assms(3) by simp
  finally have total: "(\<Sum>i < n. distr_pmf (emitter_distribution n) i) = 1" .
  have smp: "\<forall>u. fst (sample_reuse_pdf (emitter_distribution n) u) < n
               \<and> fst (snd (sample_reuse_pdf (emitter_distribution n) u)) = 1 / real n"
    using assms(3)
    by (simp add: sample_reuse_pdf_def Let_def sample_emitter_distribution
          pmf_emitter_distribution)
  show ?thesis
    unfolding d
    using built total pmf smp assms(3) normalized_emitter_distribution[of n]
    by simp
qed

theorem emitter_distribution_uniform_witness:
  "Scene_ctor example_variant example_backend example_objects = Inr example_scene
   \<and> 2 = length (m_emitters example_scene)
   \<and> m_cdf (m_emitter_distr example_scene) = [0, 1 / 2, 1]
   \<and> m_normalized (m_emitter_distr example_scene)
   \<and> distr_pmf (m_emitter_distr example_scene) 0 = 1 / 2
   \<and> distr_pmf (m_emitter_distr example_scene) 1 = 1 / 2
   \<and> distr_pmf (m_emitter_distr example_scene) 0 + distr_pmf (m_emitter_distr example_scene) 1
       = 1
   \<and> sample_reuse_pdf (m_emitter_distr example_scene) (1 / 4) = (0, 1 / 2, 1 / 2)"
proof -
  have l: "2 = length (m_emitters example_scene)"
    by (simp add: example_scene_def)
  have d: "m_emitter_distr example_scene = emitter_distribution 2"
    by (simp add: example_scene_def)
  have s: "sample_reuse_pdf (emitter_distribution 2) (1 / 4) = (0, 1 / 2, 1 / 2)"
    by (simp add: sample_reuse_pdf_def Let_def distr_sample_def distr_pmf_def example_cdf)
  have z: "0 < (2::nat)"
    by simp
  from emitter_distribution_uniform [OF example_ctor l z]
  have n: "m_normalized (m_emitter_distr example_scene)"
    and p: "\<forall>i<2. distr_pmf (m_emitter_distr example_scene) i = 1 / real 2"
    by blast+
  from p have "distr_pmf (m_emitter_distr example_scene) 0 = 1 / 2"
    and "distr_pmf (m_emitter_distr example_scene) 1 = 1 / 2"
    by simp_all
  with n show ?thesis
    using example_ctor l s by (simp add: d example_cdf)
qed

section \<open>A scene without emitters\<close>

text \<open>The loop ends without a throw and registers no emitter for every collection
  with no emitter, as an object or in a shape, and at most one integrator.\<close>

lemma add_objects_without_emitters:
  assumes "filter has_emitter objs = []"
    and "(if m_integrator a = None then 0 else 1) + length (filter is_integrator objs)
           \<le> (1::nat)"
  shows "\<exists>a'. add_objects a objs = Inr a' \<and> m_emitters a' = m_emitters a"
  using assms
proof (induction objs arbitrary: a)
  case Nil
  then show ?case by simp
next
  case (Cons obj objs)
  from Cons.prems(1) have ne: "\<not> has_emitter obj" and rest: "filter has_emitter objs = []"
    by (auto split: if_splits)
  have "\<not> is_env_emitter_object obj"
    using ne env_has_emitter by blast
  moreover have "\<not> (is_integrator obj \<and> m_integrator a \<noteq> None)"
    using Cons.prems(2) by (auto split: if_splits)
  ultimately have "\<And>e. add_object a obj \<noteq> Inl e"
    by (simp add: add_object_Inl)
  then obtain a' where a': "add_object a obj = Inr a'"
    by (cases "add_object a obj") auto
  have e: "m_emitters a' = m_emitters a"
    using a' ne by (rule add_object_Inr_emitters)
  have "(m_integrator a' = None) = (m_integrator a = None \<and> \<not> is_integrator obj)"
    using a' by (rule add_object_Inr_integrator)
  then have c: "(if m_integrator a' = None then 0 else 1)
                  + length (filter is_integrator objs) \<le> (1::nat)"
    using Cons.prems(2) by (auto split: if_splits)
  from Cons.IH[OF rest c] a' e show ?case by simp
qed





end
